theory Spec2Isabelle
  imports Main "HOL-Library.Sublist"
begin

section \<open>Python values\<close>

text \<open>
  A Python \<^verbatim>\<open>str\<close> is a sequence of Unicode code points, and slicing, \<^verbatim>\<open>len\<close>,
  \<^verbatim>\<open>strip\<close> and \<^verbatim>\<open>split\<close> count code points. A string is therefore a list of code
  points (natural numbers), not a list of bytes. \<open>lit\<close> embeds the ASCII literals of the
  source.
\<close>

type_synonym pystr = "nat list"

type_synonym bytes = "nat list"

definition lit :: "string \<Rightarrow> pystr" where
  "lit s = map of_char s"

text \<open>
  Every handler of the source is \<^verbatim>\<open>except Exception as e\<close> and reads only \<^verbatim>\<open>str(e)\<close>.
  A raised exception is an instance of Python's \<^verbatim>\<open>Exception\<close> carrying that text. A
  computation either raises or returns.
\<close>

datatype exn = Exception pystr

fun str :: "exn \<Rightarrow> pystr" where
  "str (Exception m) = m"

datatype 'a res = Raise exn | Return 'a

definition bind :: "'a res \<Rightarrow> ('a \<Rightarrow> 'b res) \<Rightarrow> 'b res" where
  "bind m f = (case m of Raise e \<Rightarrow> Raise e | Return x \<Rightarrow> f x)"

text \<open>\<^verbatim>\<open>try: body  except Exception as e: handler(e)\<close>\<close>

definition try_except :: "'a res \<Rightarrow> (exn \<Rightarrow> 'a res) \<Rightarrow> 'a res" where
  "try_except body handler = (case body of Raise e \<Rightarrow> handler e | Return x \<Rightarrow> Return x)"

subsection \<open>String methods used by the source\<close>

text \<open>\<^verbatim>\<open>str.isspace\<close> on one code point: the Unicode whitespace that \<^verbatim>\<open>strip()\<close> removes.\<close>

definition isspace :: "nat \<Rightarrow> bool" where
  "isspace c = (c \<in> set [0x09, 0x0A, 0x0B, 0x0C, 0x0D, 0x1C, 0x1D, 0x1E, 0x1F, 0x20, 0x85, 0xA0,
      0x1680, 0x2000, 0x2001, 0x2002, 0x2003, 0x2004, 0x2005, 0x2006, 0x2007, 0x2008,
      0x2009, 0x200A, 0x2028, 0x2029, 0x202F, 0x205F, 0x3000])"

text \<open>The line boundaries of \<^verbatim>\<open>str.splitlines\<close>.\<close>

definition islinebreak :: "nat \<Rightarrow> bool" where
  "islinebreak c = (c \<in> set [0x0A, 0x0B, 0x0C, 0x0D, 0x1C, 0x1D, 0x1E, 0x85, 0x2028, 0x2029])"

text \<open>
  \<^verbatim>\<open>s.splitlines()\<close>: the lines of \<open>s\<close> without their terminators; \<^verbatim>\<open>\r\n\<close> is one
  terminator; a terminator at the very end opens no further line. The first argument is
  the line read so far.
\<close>

fun splitlines_from :: "pystr \<Rightarrow> pystr \<Rightarrow> pystr list" where
  "splitlines_from cur [] = (if cur = [] then [] else [cur])"
| "splitlines_from cur [c] = (if islinebreak c then [cur] else [cur @ [c]])"
| "splitlines_from cur (c # d # cs) =
     (if c = 0x0D \<and> d = 0x0A then cur # splitlines_from [] cs
      else if islinebreak c then cur # splitlines_from [] (d # cs)
      else splitlines_from (cur @ [c]) (d # cs))"

definition splitlines :: "pystr \<Rightarrow> pystr list" where
  "splitlines s = splitlines_from [] s"

text \<open>
  \<^verbatim>\<open>s.split(sep)\<close>: cut at each occurrence of \<open>sep\<close>, leftmost first, occurrences not
  overlapping; empty pieces are kept. Python raises \<^verbatim>\<open>ValueError\<close> for an empty
  separator; the only separator of the source is the literal of two spaces.
\<close>

function split_from :: "pystr \<Rightarrow> pystr \<Rightarrow> pystr \<Rightarrow> pystr list" where
  "split_from sep cur [] = [cur]"
| "split_from sep cur (c # cs) =
     (if sep \<noteq> [] \<and> prefix sep (c # cs)
      then cur # split_from sep [] (drop (length sep - 1) cs)
      else split_from sep (cur @ [c]) cs)"
  by pat_completeness auto
termination
  by (relation "measure (\<lambda>(sep, cur, s). length s)") auto

definition split :: "pystr \<Rightarrow> pystr \<Rightarrow> pystr list" where
  "split sep s = split_from sep [] s"

text \<open>\<^verbatim>\<open>s.strip()\<close>: leading and trailing whitespace removed.\<close>

definition strip :: "pystr \<Rightarrow> pystr" where
  "strip s = rev (dropWhile isspace (rev (dropWhile isspace s)))"

text \<open>\<^verbatim>\<open>sep.join(xs)\<close>\<close>

fun join :: "pystr \<Rightarrow> pystr list \<Rightarrow> pystr" where
  "join sep [] = []"
| "join sep [x] = x"
| "join sep (x # y # ys) = x @ sep @ join sep (y # ys)"

section \<open>The libraries the program calls\<close>

text \<open>
  The program's own code is the five extractors and the page script. What it calls in
  \<^verbatim>\<open>requests\<close>, \<^verbatim>\<open>PyPDF2\<close>, \<^verbatim>\<open>pandas\<close>, the UTF-8 codec and the agent is not part of
  it: each such call is a parameter whose outcome is a raised exception or a value. An
  object is the record of what the source reads from it.
\<close>

record response =
  raise_for_status :: "unit res"
  response_text :: pystr

record page =
  extract_text :: "pystr res"

record pdf_reader =
  pages :: "page list res"

record data_frame =
  to_string :: "pystr res"

record uploaded_file =
  type :: pystr
  read :: "bytes res"

record run_response =
  content :: pystr

text \<open>
  The parse tree of \<^verbatim>\<open>BeautifulSoup\<close>: a tag has a name and contents; a string is a
  \<^verbatim>\<open>NavigableString\<close>, or a comment-like string (comment, doctype, declaration) that
  \<^verbatim>\<open>get_text\<close> leaves out. The soup is the list of its top-level nodes.
\<close>

datatype node = NavigableString pystr | Comment pystr | Tag pystr "node list"

record library =
  requests_get :: "pystr \<Rightarrow> response res"
  BeautifulSoup :: "pystr \<Rightarrow> node list res"
  PdfReader :: "uploaded_file \<Rightarrow> pdf_reader res"
  str_utf8 :: "bytes \<Rightarrow> pystr res"
  read_csv :: "uploaded_file \<Rightarrow> data_frame res"
  read_excel :: "uploaded_file \<Rightarrow> data_frame res"
  Agent_run :: "pystr \<Rightarrow> run_response res"

text \<open>
  \<^verbatim>\<open>for script in soup(names): script.decompose()\<close>: calling the soup finds every tag, at
  any depth, whose name is in \<open>names\<close>; \<^verbatim>\<open>decompose\<close> removes the tag with everything in
  it from the tree. After the loop no such tag is left.
\<close>

fun decompose_all :: "pystr list \<Rightarrow> node list \<Rightarrow> node list" where
  "decompose_all names [] = []"
| "decompose_all names (NavigableString s # ns) = NavigableString s # decompose_all names ns"
| "decompose_all names (Comment s # ns) = Comment s # decompose_all names ns"
| "decompose_all names (Tag name contents # ns) =
     (if name \<in> set names then decompose_all names ns
      else Tag name (decompose_all names contents) # decompose_all names ns)"

text \<open>\<^verbatim>\<open>soup.get_text()\<close>: the strings of the tree in document order, concatenated.\<close>

fun get_text :: "node list \<Rightarrow> pystr" where
  "get_text [] = []"
| "get_text (NavigableString s # ns) = s @ get_text ns"
| "get_text (Comment s # ns) = get_text ns"
| "get_text (Tag name contents # ns) = get_text contents @ get_text ns"

section \<open>Content extractors\<close>

type_synonym extraction = "pystr option \<times> pystr option"

definition fetch_webpage_content :: "library \<Rightarrow> pystr \<Rightarrow> extraction res" where
  "fetch_webpage_content lib url =
     try_except
       (bind (requests_get lib url) (\<lambda>response.
        bind (raise_for_status response) (\<lambda>_.
        bind (BeautifulSoup lib (response_text response)) (\<lambda>soup.
        let soup = decompose_all [lit ''script'', lit ''style''] soup;
            text = join (lit '' '')
                     [strip chunk. line \<leftarrow> splitlines (get_text soup),
                                   chunk \<leftarrow> split (lit ''  '') line, chunk \<noteq> []]
        in Return (Some text, None)))))
       (\<lambda>e. Return (None, Some (lit ''Error fetching content: '' @ str e)))"

text \<open>The loop of \<^verbatim>\<open>extract_text_from_pdf\<close>: \<^verbatim>\<open>text += page.extract_text() + "\n"\<close>.\<close>

fun pdf_pages_loop :: "pystr \<Rightarrow> page list \<Rightarrow> pystr res" where
  "pdf_pages_loop text [] = Return text"
| "pdf_pages_loop text (page # rest) =
     (case extract_text page of
        Raise e \<Rightarrow> Raise e
      | Return t \<Rightarrow> pdf_pages_loop (text @ (t @ [0x0A])) rest)"

definition extract_text_from_pdf :: "library \<Rightarrow> uploaded_file \<Rightarrow> extraction res" where
  "extract_text_from_pdf lib uploaded_file =
     try_except
       (bind (PdfReader lib uploaded_file) (\<lambda>reader.
        bind (pages reader) (\<lambda>ps.
        bind (pdf_pages_loop [] ps) (\<lambda>text.
        Return (Some text, None)))))
       (\<lambda>e. Return (None, Some (lit ''Error processing PDF: '' @ str e)))"

definition extract_text_from_txt :: "library \<Rightarrow> uploaded_file \<Rightarrow> extraction res" where
  "extract_text_from_txt lib uploaded_file =
     try_except
       (bind (read uploaded_file) (\<lambda>b.
        bind (str_utf8 lib b) (\<lambda>s.
        Return (Some s, None))))
       (\<lambda>e. Return (None, Some (lit ''Error processing text file: '' @ str e)))"

definition extract_text_from_csv :: "library \<Rightarrow> uploaded_file \<Rightarrow> extraction res" where
  "extract_text_from_csv lib uploaded_file =
     try_except
       (bind (read_csv lib uploaded_file) (\<lambda>df.
        bind (to_string df) (\<lambda>s.
        Return (Some s, None))))
       (\<lambda>e. Return (None, Some (lit ''Error processing CSV file: '' @ str e)))"

definition extract_text_from_excel :: "library \<Rightarrow> uploaded_file \<Rightarrow> extraction res" where
  "extract_text_from_excel lib uploaded_file =
     try_except
       (bind (read_excel lib uploaded_file) (\<lambda>df.
        bind (to_string df) (\<lambda>s.
        Return (Some s, None))))
       (\<lambda>e. Return (None, Some (lit ''Error processing Excel file: '' @ str e)))"

section \<open>The page script\<close>

text \<open>
  The script runs top to bottom on every interaction. Its inputs are the current values
  of the widgets; a widget that is not rendered in a run is not read in that run. Its
  effects are the elements it renders and the call of the agent, recorded in order.
  Lines 14 to 160 (configuration, style sheet, sidebar, title and the choice of the
  source) render the same elements in every run and are left out; the model starts at
  line 162. \<open>Results\<close> stands for the three elements that show the answer.
\<close>

record widgets =
  input_type :: pystr
  url :: pystr
  uploaded_file :: "uploaded_file option"
  user_query :: pystr
  button :: bool

datatype event =
    Text_input
  | File_uploader
  | Spinner
  | Error_message pystr
  | Success_message
  | Text_area
  | Button
  | Warning
  | Run_agent pystr
  | Results pystr

text \<open>
  Lines 162 to 190: \<^verbatim>\<open>data_content\<close> and \<^verbatim>\<open>error_message\<close> start as \<^verbatim>\<open>None\<close> and are
  assigned by at most one extractor. \<^verbatim>\<open>if url:\<close> is the truthiness of a string; an
  uploaded file object is truthy whenever there is one.
\<close>

definition handle_input :: "library \<Rightarrow> widgets \<Rightarrow> event list \<times> extraction res" where
  "handle_input lib w =
     (if input_type w = lit ''Website URL'' then
        (if url w \<noteq> [] then ([Text_input, Spinner], fetch_webpage_content lib (url w))
         else ([Text_input], Return (None, None)))
      else
        (case uploaded_file w of
           None \<Rightarrow> ([File_uploader], Return (None, None))
         | Some f \<Rightarrow>
             ([File_uploader, Spinner],
              if type f = lit ''application/pdf'' then extract_text_from_pdf lib f
              else if type f = lit ''text/plain'' then extract_text_from_txt lib f
              else if type f = lit ''text/csv'' then extract_text_from_csv lib f
              else if type f \<in> set [lit ''application/vnd.ms-excel'',
                  lit ''application/vnd.openxmlformats-officedocument.spreadsheetml.sheet'']
                then extract_text_from_excel lib f
              else Return (None, None))))"

text \<open>
  The f-string of lines 211 to 220. Every line of the template is indented by sixteen
  spaces, the empty ones too; \<^verbatim>\<open>data_content[:8000]\<close> is the slice of the first 8000
  code points.
\<close>

definition indent :: pystr where
  "indent = replicate 16 0x20"

definition analysis_prompt :: "pystr \<Rightarrow> pystr \<Rightarrow> pystr" where
  "analysis_prompt query data_content =
     [0x0A] @ indent @ lit ''Analyze the following content and answer the user's question:''
     @ [0x0A] @ indent
     @ [0x0A] @ indent @ lit ''User Query: '' @ query
     @ [0x0A] @ indent
     @ [0x0A] @ indent @ lit ''Content:''
     @ [0x0A] @ indent @ take 8000 data_content
     @ [0x0A] @ indent
     @ [0x0A] @ indent @ lit ''Provide a structured and detailed response.''
     @ [0x0A] @ indent"

text \<open>Lines 192 to 194: \<^verbatim>\<open>if error_message:\<close> shows the message when it is a non-empty string.\<close>

fun display_error :: "pystr option \<Rightarrow> event list" where
  "display_error None = []"
| "display_error (Some m) = (if m \<noteq> [] then [Error_message m] else [])"

text \<open>
  Lines 206 to 225, the handler of the button: a warning for an empty query, otherwise
  the prompt is composed and the agent called. The call is not inside any \<^verbatim>\<open>try\<close>.
\<close>

definition analyze :: "library \<Rightarrow> widgets \<Rightarrow> pystr \<Rightarrow> event list \<times> unit res" where
  "analyze lib w data_content =
     (if user_query w = [] then ([Warning], Return ())
      else
        (let prompt = analysis_prompt (user_query w) data_content in
         case Agent_run lib prompt of
           Raise e \<Rightarrow> ([Spinner, Run_agent prompt], Raise e)
         | Return response \<Rightarrow>
             ([Spinner, Run_agent prompt, Results (content response)], Return ())))"

text \<open>Lines 196 to 206: \<^verbatim>\<open>if data_content:\<close> is false for \<^verbatim>\<open>None\<close> and for the empty string.\<close>

definition query_and_analysis :: "library \<Rightarrow> widgets \<Rightarrow> pystr option \<Rightarrow> event list \<times> unit res" where
  "query_and_analysis lib w data_content =
     (case data_content of
        None \<Rightarrow> ([], Return ())
      | Some c \<Rightarrow>
          if c = [] then ([], Return ())
          else if button w then
            (let (evs, out) = analyze lib w c in ([Success_message, Text_area, Button] @ evs, out))
          else ([Success_message, Text_area, Button], Return ()))"

definition render :: "library \<Rightarrow> widgets \<Rightarrow> event list \<times> unit res" where
  "render lib w =
     (let (evs1, r) = handle_input lib w in
      case r of
        Raise e \<Rightarrow> (evs1, Raise e)
      | Return (data_content, error_message) \<Rightarrow>
          (let (evs2, out) = query_and_analysis lib w data_content
           in (evs1 @ display_error error_message @ evs2, out)))"

section \<open>Predicates of the specification\<close>

text \<open>
  An extraction result with exactly one component populated: a text and no error, or no
  text and a non-empty message.
\<close>

fun exactly_one :: "extraction \<Rightarrow> bool" where
  "exactly_one (Some t, None) = True"
| "exactly_one (None, Some m) = (m \<noteq> [])"
| "exactly_one (Some t, Some m) = False"
| "exactly_one (None, None) = False"

fun returns_one :: "extraction res \<Rightarrow> bool" where
  "returns_one (Return r) = exactly_one r"
| "returns_one (Raise e) = False"



text \<open>
  The dispatch calls an extractor: for a non-empty URL, or for an uploaded file whose
  declared type is one of the handled ones.
\<close>

definition runs_extractor :: "widgets \<Rightarrow> bool" where
  "runs_extractor w =
     (if input_type w = lit ''Website URL'' then url w \<noteq> []
      else (case uploaded_file w of
              None \<Rightarrow> False
            | Some f \<Rightarrow> type f \<in> set [lit ''application/pdf'', lit ''text/plain'', lit ''text/csv'',
                lit ''application/vnd.ms-excel'',
                lit ''application/vnd.openxmlformats-officedocument.spreadsheetml.sheet'']))"



text \<open>
  Two parse trees that are the same outside the tags named in \<open>names\<close>: they may differ
  only in what those tags contain.
\<close>

fun same_outside :: "pystr list \<Rightarrow> node list \<Rightarrow> node list \<Rightarrow> bool" where
  "same_outside names [] [] = True"
| "same_outside names (NavigableString s # ns) (NavigableString s' # ns') =
     (s = s' \<and> same_outside names ns ns')"
| "same_outside names (Comment s # ns) (Comment s' # ns') =
     (s = s' \<and> same_outside names ns ns')"
| "same_outside names (Tag name contents # ns) (Tag name' contents' # ns') =
     (name = name' \<and> (if name \<in> set names then True else same_outside names contents contents')
      \<and> same_outside names ns ns')"
| "same_outside names _ _ = False"

section \<open>Example inputs\<close>

text \<open>A library in which every call fails, and a run that asks for a web page.\<close>

definition no_library :: library where
  "no_library = \<lparr>
     requests_get = (\<lambda>u. Raise (Exception (lit ''unavailable''))),
     BeautifulSoup = (\<lambda>t. Raise (Exception (lit ''unavailable''))),
     PdfReader = (\<lambda>f. Raise (Exception (lit ''unavailable''))),
     str_utf8 = (\<lambda>b. Raise (Exception (lit ''unavailable''))),
     read_csv = (\<lambda>f. Raise (Exception (lit ''unavailable''))),
     read_excel = (\<lambda>f. Raise (Exception (lit ''unavailable''))),
     Agent_run = (\<lambda>p. Raise (Exception (lit ''unavailable''))) \<rparr>"

definition url_run :: widgets where
  "url_run = \<lparr> input_type = lit ''Website URL'', url = lit ''http://a'',
     uploaded_file = None, user_query = lit ''why'', button = True \<rparr>"

text \<open>A run with an uploaded file, a query and the state of the button.\<close>

definition upload_run :: "uploaded_file \<Rightarrow> pystr \<Rightarrow> bool \<Rightarrow> widgets" where
  "upload_run f q b = \<lparr> input_type = lit ''Upload File'', url = [],
     uploaded_file = Some f, user_query = q, button = b \<rparr>"

definition text_file :: "bytes \<Rightarrow> uploaded_file" where
  "text_file b = \<lparr> type = lit ''text/plain'', read = Return b \<rparr>"

definition pdf_file :: uploaded_file where
  "pdf_file = \<lparr> type = lit ''application/pdf'', read = Return [37, 80, 68, 70] \<rparr>"

definition octet_file :: uploaded_file where
  "octet_file = \<lparr> type = lit ''application/octet-stream'', read = Return [49, 44, 50] \<rparr>"

text \<open>A codec that decodes ASCII bytes, which UTF-8 maps to the same code points.\<close>

definition ascii_library :: library where
  "ascii_library = no_library \<lparr> str_utf8 :=
     (\<lambda>b. if list_all (\<lambda>x. x < 128) b then Return b
          else Raise (Exception (lit ''invalid start byte''))) \<rparr>"

text \<open>A reader that finds one page whose text is the letter A.\<close>

definition one_page_library :: library where
  "one_page_library = no_library \<lparr> PdfReader :=
     (\<lambda>f. Return \<lparr> pages = Return [\<lparr> extract_text = Return [65] \<rparr>] \<rparr>) \<rparr>"

text \<open>A server that answers every request with status 200 and a page that parses to \<open>soup\<close>.\<close>

definition page_library :: "node list \<Rightarrow> library" where
  "page_library soup = no_library \<lparr>
     requests_get := (\<lambda>u. Return \<lparr> raise_for_status = Return (), response_text = lit ''<html>'' \<rparr>),
     BeautifulSoup := (\<lambda>t. Return soup) \<rparr>"

text \<open>A server that answers with a status that \<^verbatim>\<open>raise_for_status\<close> refuses.\<close>

definition not_found_library :: library where
  "not_found_library = no_library \<lparr>
     requests_get := (\<lambda>u. Return \<lparr> raise_for_status = Raise (Exception (lit ''404 Client Error'')),
        response_text = [] \<rparr>) \<rparr>"

section \<open>The extractors and the dispatch\<close>

lemma try_except_Return:
  "(\<And>e. handler e = Return (None, Some (p @ str e))) \<Longrightarrow>
   (\<And>x. body = Return x \<Longrightarrow> \<exists>t. x = (Some t, None)) \<Longrightarrow>
   (\<exists>t. try_except body handler = Return (Some t, None)) \<or>
   (\<exists>e. try_except body handler = Return (None, Some (p @ str e)))"
  by (cases body) (auto simp: try_except_def)

lemma fetch_webpage_content_cases:
  "(\<exists>t. fetch_webpage_content lib u = Return (Some t, None)) \<or>
   (\<exists>e. fetch_webpage_content lib u = Return (None, Some (lit ''Error fetching content: '' @ str e)))"
  unfolding fetch_webpage_content_def
  by (rule try_except_Return) (auto simp: bind_def Let_def split: res.splits)

lemma extract_text_from_pdf_cases:
  "(\<exists>t. extract_text_from_pdf lib f = Return (Some t, None)) \<or>
   (\<exists>e. extract_text_from_pdf lib f = Return (None, Some (lit ''Error processing PDF: '' @ str e)))"
  unfolding extract_text_from_pdf_def
  by (rule try_except_Return) (auto simp: bind_def split: res.splits)

lemma extract_text_from_txt_cases:
  "(\<exists>t. extract_text_from_txt lib f = Return (Some t, None)) \<or>
   (\<exists>e. extract_text_from_txt lib f = Return (None, Some (lit ''Error processing text file: '' @ str e)))"
  unfolding extract_text_from_txt_def
  by (rule try_except_Return) (auto simp: bind_def split: res.splits)

lemma extract_text_from_csv_cases:
  "(\<exists>t. extract_text_from_csv lib f = Return (Some t, None)) \<or>
   (\<exists>e. extract_text_from_csv lib f = Return (None, Some (lit ''Error processing CSV file: '' @ str e)))"
  unfolding extract_text_from_csv_def
  by (rule try_except_Return) (auto simp: bind_def split: res.splits)

lemma extract_text_from_excel_cases:
  "(\<exists>t. extract_text_from_excel lib f = Return (Some t, None)) \<or>
   (\<exists>e. extract_text_from_excel lib f = Return (None, Some (lit ''Error processing Excel file: '' @ str e)))"
  unfolding extract_text_from_excel_def
  by (rule try_except_Return) (auto simp: bind_def split: res.splits)




lemma returns_oneI:
  "(\<exists>t. r = Return (Some t, None)) \<or> (\<exists>e. r = Return (None, Some (lit (c # s) @ str e))) \<Longrightarrow> returns_one r"
  by (auto simp: lit_def)

lemma returns_one_extractors:
  "returns_one (fetch_webpage_content lib u)"
  "returns_one (extract_text_from_pdf lib f)"
  "returns_one (extract_text_from_txt lib f)"
  "returns_one (extract_text_from_csv lib f)"
  "returns_one (extract_text_from_excel lib f)"
  by (rule returns_oneI, rule fetch_webpage_content_cases extract_text_from_pdf_cases
      extract_text_from_txt_cases extract_text_from_csv_cases extract_text_from_excel_cases)+

lemma handle_input_cases:
  "snd (handle_input lib w) = Return (None, None) \<or> returns_one (snd (handle_input lib w))"
proof (cases "input_type w = lit ''Website URL''")
  case True
  then show ?thesis
    by (simp add: handle_input_def returns_one_extractors)
next
  case False
  show ?thesis
  proof (cases "uploaded_file w")
    case None
    with False show ?thesis by (simp add: handle_input_def)
  next
    case (Some f)
    with False show ?thesis
      by (simp add: handle_input_def returns_one_extractors)
  qed
qed

lemma handle_input_events:
  "set (fst (handle_input lib w)) \<subseteq> {Text_input, File_uploader, Spinner}"
  by (simp add: handle_input_def split: option.split)

lemma query_and_analysis_None [simp]:
  "query_and_analysis lib w None = ([], Return ())"
  by (simp add: query_and_analysis_def)

lemma query_and_analysis_empty [simp]:
  "query_and_analysis lib w (Some []) = ([], Return ())"
  by (simp add: query_and_analysis_def)

lemma analyze_events:
  "Error_message m \<notin> set (fst (analyze lib w c))"
  by (simp add: analyze_def Let_def split: res.split)

lemma query_and_analysis_no_error:
  "Error_message m \<notin> set (fst (query_and_analysis lib w d))"
  using analyze_events [of m lib w]
  by (simp add: query_and_analysis_def case_prod_beta split: option.split)

lemma render_Return:
  assumes "handle_input lib w = (evs, Return (d, e))"
  shows "render lib w =
    (evs @ display_error e @ fst (query_and_analysis lib w d), snd (query_and_analysis lib w d))"
  using assms by (simp add: render_def split: prod.split)

lemma render_error:
  assumes "snd (handle_input lib w) = Return (None, e)"
  shows "render lib w = (fst (handle_input lib w) @ display_error e, Return ())"
  using assms render_Return [of lib w "fst (handle_input lib w)" None e]
  by (cases "handle_input lib w") simp

lemma handle_input_no_display:
  "Success_message \<notin> set (fst (handle_input lib w))"
  "Error_message m \<notin> set (fst (handle_input lib w))"
  "Run_agent p \<notin> set (fst (handle_input lib w))"
  "Text_area \<notin> set (fst (handle_input lib w))"
  "Button \<notin> set (fst (handle_input lib w))"
  using handle_input_events [of lib w] by auto

lemma display_error_events:
  "set (display_error e) \<subseteq> range Error_message"
  by (cases e) auto

lemma error_is_exclusive:
  assumes "snd (handle_input lib w) = Return (d, Some m)"
  shows "d = None"
  using handle_input_cases [of lib w] assms by (cases d) auto
subsection \<open>Lines, pieces and stripping\<close>























lemma fetch_webpage_content_ok:
  assumes "requests_get lib u = Return resp"
    and "raise_for_status resp = Return ()"
    and "BeautifulSoup lib (response_text resp) = Return soup"
  shows "fetch_webpage_content lib u = Return (Some (join (lit '' '')
      [strip chunk. line \<leftarrow> splitlines (get_text (decompose_all [lit ''script'', lit ''style''] soup)),
         chunk \<leftarrow> split (lit ''  '') line, chunk \<noteq> []]), None)"
  using assms by (simp add: fetch_webpage_content_def try_except_def bind_def)

lemma same_outside_decompose_all:
  "same_outside names t t' \<Longrightarrow> decompose_all names t = decompose_all names t'"
  by (induction names t t' rule: same_outside.induct) (auto split: if_splits)

lemma pdf_pages_loop_texts:
  "map extract_text ps = map Return texts \<Longrightarrow>
   pdf_pages_loop acc ps = Return (acc @ concat (map (\<lambda>t. t @ [0x0A]) texts))"
proof (induction ps arbitrary: acc texts)
  case Nil
  then show ?case by simp
next
  case (Cons p ps)
  then obtain t ts where "texts = t # ts" "extract_text p = Return t"
    "map extract_text ps = map Return ts"
    by (cases texts) auto
  with Cons.IH [of ts "acc @ (t @ [0x0A])"] show ?case by simp
qed

lemma concat_newlines_join:
  "texts \<noteq> [] \<Longrightarrow> concat (map (\<lambda>t. t @ [n]) texts) = join [n] texts @ [n]"
  by (induction texts rule: join.induct[of _ "[n]"]) auto

subsection \<open>Where a raised exception ends\<close>

lemma fetch_webpage_content_raise:
  "requests_get lib u = Raise e \<Longrightarrow>
   fetch_webpage_content lib u = Return (None, Some (lit ''Error fetching content: '' @ str e))"
  "requests_get lib u = Return resp \<Longrightarrow> raise_for_status resp = Raise e \<Longrightarrow>
   fetch_webpage_content lib u = Return (None, Some (lit ''Error fetching content: '' @ str e))"
  "requests_get lib u = Return resp \<Longrightarrow> raise_for_status resp = Return () \<Longrightarrow>
   BeautifulSoup lib (response_text resp) = Raise e \<Longrightarrow>
   fetch_webpage_content lib u = Return (None, Some (lit ''Error fetching content: '' @ str e))"
  by (simp_all add: fetch_webpage_content_def try_except_def bind_def)

lemma pdf_pages_loop_raise:
  "map extract_text ps1 = map Return texts \<Longrightarrow> extract_text p = Raise e \<Longrightarrow>
   pdf_pages_loop acc (ps1 @ p # ps2) = Raise e"
proof (induction ps1 arbitrary: acc texts)
  case Nil
  then show ?case by simp
next
  case (Cons q qs)
  then obtain t ts where "texts = t # ts" "extract_text q = Return t"
    "map extract_text qs = map Return ts"
    by (cases texts) auto
  with Cons.IH [of ts "acc @ (t @ [0x0A])"] Cons.prems(2) show ?case by simp
qed

lemma extract_text_from_pdf_raise:
  "PdfReader lib f = Raise e \<Longrightarrow>
   extract_text_from_pdf lib f = Return (None, Some (lit ''Error processing PDF: '' @ str e))"
  "PdfReader lib f = Return reader \<Longrightarrow> pages reader = Raise e \<Longrightarrow>
   extract_text_from_pdf lib f = Return (None, Some (lit ''Error processing PDF: '' @ str e))"
  "PdfReader lib f = Return reader \<Longrightarrow> pages reader = Return (ps1 @ p # ps2) \<Longrightarrow>
   map extract_text ps1 = map Return texts \<Longrightarrow> extract_text p = Raise e \<Longrightarrow>
   extract_text_from_pdf lib f = Return (None, Some (lit ''Error processing PDF: '' @ str e))"
  by (simp_all add: extract_text_from_pdf_def try_except_def bind_def pdf_pages_loop_raise)

lemma extract_text_from_txt_raise:
  "read f = Raise e \<Longrightarrow>
   extract_text_from_txt lib f = Return (None, Some (lit ''Error processing text file: '' @ str e))"
  "read f = Return b \<Longrightarrow> str_utf8 lib b = Raise e \<Longrightarrow>
   extract_text_from_txt lib f = Return (None, Some (lit ''Error processing text file: '' @ str e))"
  by (simp_all add: extract_text_from_txt_def try_except_def bind_def)

lemma extract_text_from_csv_raise:
  "read_csv lib f = Raise e \<Longrightarrow>
   extract_text_from_csv lib f = Return (None, Some (lit ''Error processing CSV file: '' @ str e))"
  "read_csv lib f = Return df \<Longrightarrow> to_string df = Raise e \<Longrightarrow>
   extract_text_from_csv lib f = Return (None, Some (lit ''Error processing CSV file: '' @ str e))"
  by (simp_all add: extract_text_from_csv_def try_except_def bind_def)

lemma extract_text_from_excel_raise:
  "read_excel lib f = Raise e \<Longrightarrow>
   extract_text_from_excel lib f = Return (None, Some (lit ''Error processing Excel file: '' @ str e))"
  "read_excel lib f = Return df \<Longrightarrow> to_string df = Raise e \<Longrightarrow>
   extract_text_from_excel lib f = Return (None, Some (lit ''Error processing Excel file: '' @ str e))"
  by (simp_all add: extract_text_from_excel_def try_except_def bind_def)

subsection \<open>When an extractor returns a text\<close>

lemma pdf_pages_loop_Return:
  "pdf_pages_loop acc ps = Return t \<Longrightarrow>
   \<exists>texts. map extract_text ps = map Return texts \<and> t = acc @ concat (map (\<lambda>x. x @ [0x0A]) texts)"
proof (induction ps arbitrary: acc)
  case Nil
  then show ?case by simp
next
  case (Cons p ps)
  then obtain x where x: "extract_text p = Return x"
    and l: "pdf_pages_loop (acc @ (x @ [0x0A])) ps = Return t"
    by (cases "extract_text p") auto
  from Cons.IH [OF l] obtain texts where "map extract_text ps = map Return texts"
    "t = (acc @ (x @ [0x0A])) @ concat (map (\<lambda>x. x @ [0x0A]) texts)"
    by blast
  with x have "map extract_text (p # ps) = map Return (x # texts) \<and>
      t = acc @ concat (map (\<lambda>x. x @ [0x0A]) (x # texts))"
    by simp
  then show ?case by blast
qed

lemma fetch_webpage_content_text_iff:
  "fetch_webpage_content lib u = Return (Some t, None) \<longleftrightarrow>
   (\<exists>resp soup. requests_get lib u = Return resp \<and> raise_for_status resp = Return ()
      \<and> BeautifulSoup lib (response_text resp) = Return soup
      \<and> t = join (lit '' '')
           [strip chunk.
              line \<leftarrow> splitlines (get_text (decompose_all [lit ''script'', lit ''style''] soup)),
              chunk \<leftarrow> split (lit ''  '') line, chunk \<noteq> []])"
  by (auto simp: fetch_webpage_content_def try_except_def bind_def split: res.splits)

lemma extract_text_from_pdf_text_iff:
  "extract_text_from_pdf lib f = Return (Some t, None) \<longleftrightarrow>
   (\<exists>reader ps texts. PdfReader lib f = Return reader \<and> pages reader = Return ps
      \<and> map extract_text ps = map Return texts
      \<and> t = concat (map (\<lambda>x. x @ [0x0A]) texts))"
proof
  assume a: "extract_text_from_pdf lib f = Return (Some t, None)"
  then obtain reader where r: "PdfReader lib f = Return reader"
    by (cases "PdfReader lib f") (auto simp: extract_text_from_pdf_def try_except_def bind_def)
  with a obtain ps where p: "pages reader = Return ps"
    by (cases "pages reader") (auto simp: extract_text_from_pdf_def try_except_def bind_def)
  with a r have "pdf_pages_loop [] ps = Return t"
    by (cases "pdf_pages_loop [] ps") (auto simp: extract_text_from_pdf_def try_except_def bind_def)
  from pdf_pages_loop_Return [OF this] r p show "\<exists>reader ps texts. PdfReader lib f = Return reader
      \<and> pages reader = Return ps \<and> map extract_text ps = map Return texts
      \<and> t = concat (map (\<lambda>x. x @ [0x0A]) texts)"
    by auto
next
  assume "\<exists>reader ps texts. PdfReader lib f = Return reader \<and> pages reader = Return ps
      \<and> map extract_text ps = map Return texts
      \<and> t = concat (map (\<lambda>x. x @ [0x0A]) texts)"
  then obtain reader ps texts where "PdfReader lib f = Return reader" "pages reader = Return ps"
    and m: "map extract_text ps = map Return texts" and "t = concat (map (\<lambda>x. x @ [0x0A]) texts)"
    by blast
  with pdf_pages_loop_texts [OF m, of "[]"] show "extract_text_from_pdf lib f = Return (Some t, None)"
    by (simp add: extract_text_from_pdf_def try_except_def bind_def)
qed

lemma extract_text_from_txt_text_iff:
  "extract_text_from_txt lib f = Return (Some t, None) \<longleftrightarrow>
   (\<exists>b. read f = Return b \<and> str_utf8 lib b = Return t)"
  by (auto simp: extract_text_from_txt_def try_except_def bind_def split: res.splits)

lemma extract_text_from_csv_text_iff:
  "extract_text_from_csv lib f = Return (Some t, None) \<longleftrightarrow>
   (\<exists>df. read_csv lib f = Return df \<and> to_string df = Return t)"
  by (auto simp: extract_text_from_csv_def try_except_def bind_def split: res.splits)

lemma extract_text_from_excel_text_iff:
  "extract_text_from_excel lib f = Return (Some t, None) \<longleftrightarrow>
   (\<exists>df. read_excel lib f = Return df \<and> to_string df = Return t)"
  by (auto simp: extract_text_from_excel_def try_except_def bind_def split: res.splits)

lemma handle_input_runs:
  "runs_extractor w \<Longrightarrow> returns_one (snd (handle_input lib w))"
  by (cases "uploaded_file w")
     (auto simp: runs_extractor_def handle_input_def returns_one_extractors split: if_splits)

lemma handle_input_runs_not:
  "\<not> runs_extractor w \<Longrightarrow> snd (handle_input lib w) = Return (None, None)"
  by (cases "uploaded_file w")
     (auto simp: runs_extractor_def handle_input_def split: if_splits)

section \<open>Rendering\<close>

text \<open>
  C1. In a run whose extraction result holds an error, the agent is not called (so no
  prompt reaches it), and neither the success message nor the query input nor the
  button is rendered; and no run renders both the error message and the success
  message.
\<close>

theorem error_blocks_analysis:
  "(snd (handle_input lib w) = Return (d, Some m) \<longrightarrow>
      (\<forall>p. Run_agent p \<notin> set (fst (render lib w))) \<and>
      Success_message \<notin> set (fst (render lib w)) \<and>
      Text_area \<notin> set (fst (render lib w)) \<and>
      Button \<notin> set (fst (render lib w)))
   \<and> \<not> ((\<exists>m'. Error_message m' \<in> set (fst (render lib w))) \<and>
          Success_message \<in> set (fst (render lib w)))"
proof (intro conjI impI)
  assume a: "snd (handle_input lib w) = Return (d, Some m)"
  then have r: "render lib w = (fst (handle_input lib w) @ display_error (Some m), Return ())"
    using error_is_exclusive [OF a] render_error by simp
  show "\<forall>p. Run_agent p \<notin> set (fst (render lib w))"
    using handle_input_no_display(3) [of _ lib w] by (simp add: r)
  show "Success_message \<notin> set (fst (render lib w))"
    using handle_input_no_display(1) [of lib w] by (simp add: r)
  show "Text_area \<notin> set (fst (render lib w))"
    using handle_input_no_display(4) [of lib w] by (simp add: r)
  show "Button \<notin> set (fst (render lib w))"
    using handle_input_no_display(5) [of lib w] by (simp add: r)
next
  show "\<not> ((\<exists>m'. Error_message m' \<in> set (fst (render lib w))) \<and>
          Success_message \<in> set (fst (render lib w)))"
  proof
    assume b: "(\<exists>m'. Error_message m' \<in> set (fst (render lib w))) \<and>
          Success_message \<in> set (fst (render lib w))"
    obtain evs r where h: "handle_input lib w = (evs, r)" by (cases "handle_input lib w")
    show False
    proof (cases r)
      case (Raise x)
      with h have "render lib w = (evs, Raise x)" by (simp add: render_def)
      with b handle_input_no_display(1) [of lib w] h show False by simp
    next
      case (Return x)
      obtain d e where x: "x = (d, e)" by (cases x)
      show False
      proof (cases e)
        case None
        with h Return x
        have "render lib w = (evs @ fst (query_and_analysis lib w d), snd (query_and_analysis lib w d))"
          using render_Return [of lib w evs d e] by simp
        with b handle_input_no_display(2) [of _ lib w] h query_and_analysis_no_error [of _ lib w d]
        show False by auto
      next
        case (Some m)
        with h Return x have s: "snd (handle_input lib w) = Return (d, Some m)" by simp
        have "d = None" by (rule error_is_exclusive [OF s])
        with s have "render lib w = (fst (handle_input lib w) @ display_error (Some m), Return ())"
          using render_error by simp
        with b handle_input_no_display(1) [of lib w] show False by simp
      qed
    qed
  qed
qed


theorem error_blocks_analysis_witness:
  "snd (handle_input no_library url_run) =
     Return (None, Some (lit ''Error fetching content: unavailable''))
   \<and> (\<forall>p. Run_agent p \<notin> set (fst (render no_library url_run)))
   \<and> Success_message \<notin> set (fst (render no_library url_run))"
proof -
  have h: "snd (handle_input no_library url_run) =
      Return (None, Some (lit ''Error fetching content: unavailable''))"
    by (simp add: handle_input_def fetch_webpage_content_def no_library_def url_run_def
        try_except_def bind_def lit_def)
  show ?thesis
    using h error_blocks_analysis [of no_library url_run None
        "lit ''Error fetching content: unavailable''"]
    by simp
qed

section \<open>Extraction\<close>

text \<open>
  C2. None of the five extractors raises to its caller, whatever the library calls do.
  Wherever a library call raises, at the request, the status check, the parser, the
  reader, the list of pages, a page's text, the read, the decoding, the table parser or
  the rendering of the table, the extractor returns no text and its own prefix followed
  by the text of that exception. In every case the result is a text with no error or no
  text with such a message.
\<close>

theorem extractors_raise_nothing:
  "(requests_get lib u = Raise e \<longrightarrow>
      fetch_webpage_content lib u = Return (None, Some (lit ''Error fetching content: '' @ str e))) \<and>
   (requests_get lib u = Return resp \<and> raise_for_status resp = Raise e \<longrightarrow>
      fetch_webpage_content lib u = Return (None, Some (lit ''Error fetching content: '' @ str e))) \<and>
   (requests_get lib u = Return resp \<and> raise_for_status resp = Return ()
      \<and> BeautifulSoup lib (response_text resp) = Raise e \<longrightarrow>
      fetch_webpage_content lib u = Return (None, Some (lit ''Error fetching content: '' @ str e))) \<and>
   (PdfReader lib f = Raise e \<longrightarrow>
      extract_text_from_pdf lib f = Return (None, Some (lit ''Error processing PDF: '' @ str e))) \<and>
   (PdfReader lib f = Return reader \<and> pages reader = Raise e \<longrightarrow>
      extract_text_from_pdf lib f = Return (None, Some (lit ''Error processing PDF: '' @ str e))) \<and>
   (PdfReader lib f = Return reader \<and> pages reader = Return (ps1 @ p # ps2)
      \<and> map extract_text ps1 = map Return texts \<and> extract_text p = Raise e \<longrightarrow>
      extract_text_from_pdf lib f = Return (None, Some (lit ''Error processing PDF: '' @ str e))) \<and>
   (read f = Raise e \<longrightarrow>
      extract_text_from_txt lib f = Return (None, Some (lit ''Error processing text file: '' @ str e))) \<and>
   (read f = Return b \<and> str_utf8 lib b = Raise e \<longrightarrow>
      extract_text_from_txt lib f = Return (None, Some (lit ''Error processing text file: '' @ str e))) \<and>
   (read_csv lib f = Raise e \<longrightarrow>
      extract_text_from_csv lib f = Return (None, Some (lit ''Error processing CSV file: '' @ str e))) \<and>
   (read_csv lib f = Return df \<and> to_string df = Raise e \<longrightarrow>
      extract_text_from_csv lib f = Return (None, Some (lit ''Error processing CSV file: '' @ str e))) \<and>
   (read_excel lib f = Raise e \<longrightarrow>
      extract_text_from_excel lib f = Return (None, Some (lit ''Error processing Excel file: '' @ str e))) \<and>
   (read_excel lib f = Return df \<and> to_string df = Raise e \<longrightarrow>
      extract_text_from_excel lib f = Return (None, Some (lit ''Error processing Excel file: '' @ str e))) \<and>
   ((\<exists>t. fetch_webpage_content lib u = Return (Some t, None)) \<or>
    (\<exists>e. fetch_webpage_content lib u =
       Return (None, Some (lit ''Error fetching content: '' @ str e)))) \<and>
   ((\<exists>t. extract_text_from_pdf lib f = Return (Some t, None)) \<or>
    (\<exists>e. extract_text_from_pdf lib f =
       Return (None, Some (lit ''Error processing PDF: '' @ str e)))) \<and>
   ((\<exists>t. extract_text_from_txt lib f = Return (Some t, None)) \<or>
    (\<exists>e. extract_text_from_txt lib f =
       Return (None, Some (lit ''Error processing text file: '' @ str e)))) \<and>
   ((\<exists>t. extract_text_from_csv lib f = Return (Some t, None)) \<or>
    (\<exists>e. extract_text_from_csv lib f =
       Return (None, Some (lit ''Error processing CSV file: '' @ str e)))) \<and>
   ((\<exists>t. extract_text_from_excel lib f = Return (Some t, None)) \<or>
    (\<exists>e. extract_text_from_excel lib f =
       Return (None, Some (lit ''Error processing Excel file: '' @ str e)))) \<and>
   (\<forall>x. fetch_webpage_content lib u \<noteq> Raise x \<and> extract_text_from_pdf lib f \<noteq> Raise x \<and>
        extract_text_from_txt lib f \<noteq> Raise x \<and> extract_text_from_csv lib f \<noteq> Raise x \<and>
        extract_text_from_excel lib f \<noteq> Raise x)"
proof -
  have n: "fetch_webpage_content lib u \<noteq> Raise x \<and> extract_text_from_pdf lib f \<noteq> Raise x \<and>
        extract_text_from_txt lib f \<noteq> Raise x \<and> extract_text_from_csv lib f \<noteq> Raise x \<and>
        extract_text_from_excel lib f \<noteq> Raise x" for x
    using fetch_webpage_content_cases [of lib u] extract_text_from_pdf_cases [of lib f]
      extract_text_from_txt_cases [of lib f] extract_text_from_csv_cases [of lib f]
      extract_text_from_excel_cases [of lib f]
    by auto
  show ?thesis
    by (intro conjI impI allI n; (elim conjE)?)
       (erule (3) fetch_webpage_content_raise extract_text_from_pdf_raise
          extract_text_from_txt_raise extract_text_from_csv_raise extract_text_from_excel_raise
        | erule (2) fetch_webpage_content_raise extract_text_from_pdf_raise
          extract_text_from_txt_raise extract_text_from_csv_raise extract_text_from_excel_raise
        | erule (1) fetch_webpage_content_raise extract_text_from_pdf_raise
          extract_text_from_txt_raise extract_text_from_csv_raise extract_text_from_excel_raise
        | erule fetch_webpage_content_raise extract_text_from_pdf_raise
          extract_text_from_txt_raise extract_text_from_csv_raise extract_text_from_excel_raise
        | rule fetch_webpage_content_cases extract_text_from_pdf_cases
          extract_text_from_txt_cases extract_text_from_csv_cases extract_text_from_excel_cases)+
qed

theorem extractors_raise_nothing_witness:
  "fetch_webpage_content no_library (lit ''http://a'')
     = Return (None, Some (lit ''Error fetching content: '' @ lit ''unavailable''))
   \<and> fetch_webpage_content not_found_library (lit ''http://a'')
     = Return (None, Some (lit ''Error fetching content: '' @ lit ''404 Client Error''))
   \<and> extract_text_from_pdf no_library pdf_file
     = Return (None, Some (lit ''Error processing PDF: '' @ lit ''unavailable''))
   \<and> extract_text_from_txt no_library (text_file [104, 105])
     = Return (None, Some (lit ''Error processing text file: '' @ lit ''unavailable''))
   \<and> extract_text_from_csv no_library octet_file
     = Return (None, Some (lit ''Error processing CSV file: '' @ lit ''unavailable''))
   \<and> extract_text_from_excel no_library octet_file
     = Return (None, Some (lit ''Error processing Excel file: '' @ lit ''unavailable''))"
  using extractors_raise_nothing [where lib = no_library and u = "lit ''http://a''"
      and f = pdf_file and e = "Exception (lit ''unavailable'')"]
    extractors_raise_nothing [where lib = not_found_library and u = "lit ''http://a''"
      and e = "Exception (lit ''404 Client Error'')"
      and resp = "\<lparr> raise_for_status = Raise (Exception (lit ''404 Client Error'')),
        response_text = [] \<rparr>"]
    extractors_raise_nothing [where lib = no_library and f = "text_file [104, 105]"
      and b = "[104, 105]" and e = "Exception (lit ''unavailable'')"]
    extractors_raise_nothing [where lib = no_library and f = octet_file
      and e = "Exception (lit ''unavailable'')"]
  by (simp add: no_library_def not_found_library_def text_file_def)

text \<open>
  The claim C3 as it is written, with the dispatch among its sources, fails for an
  uploaded file whose declared type is none of the handled ones: the spinner is shown,
  no extractor runs and both variables stay \<^verbatim>\<open>None\<close>.
\<close>

theorem unhandled_type_both_null:
  "snd (handle_input no_library (upload_run octet_file [] False)) = Return (None, None)
   \<and> \<not> returns_one (snd (handle_input no_library (upload_run octet_file [] False)))"
proof -
  have "snd (handle_input no_library (upload_run octet_file [] False)) = Return (None, None)"
    by (simp add: handle_input_def upload_run_def octet_file_def lit_def)
  then show ?thesis by simp
qed

text \<open>
  C3, amended. Every call of an extractor returns a pair with exactly one component
  populated: the text and no error exactly when every library call of the extractor
  returned, and otherwise no text and a non-empty message. The dispatch returns such a
  pair whenever it calls an extractor, that is for a non-empty URL or for an uploaded
  file of a handled declared type; in every other run it leaves both at \<^verbatim>\<open>None\<close>.
\<close>

theorem extraction_exactly_one:
  "returns_one (fetch_webpage_content lib u) \<and>
   (fetch_webpage_content lib u = Return (Some t, None) \<longleftrightarrow>
     (\<exists>resp soup. requests_get lib u = Return resp \<and> raise_for_status resp = Return ()
        \<and> BeautifulSoup lib (response_text resp) = Return soup
        \<and> t = join (lit '' '')
             [strip chunk.
                line \<leftarrow> splitlines (get_text (decompose_all [lit ''script'', lit ''style''] soup)),
                chunk \<leftarrow> split (lit ''  '') line, chunk \<noteq> []])) \<and>
   returns_one (extract_text_from_pdf lib f) \<and>
   (extract_text_from_pdf lib f = Return (Some t, None) \<longleftrightarrow>
     (\<exists>reader ps texts. PdfReader lib f = Return reader \<and> pages reader = Return ps
        \<and> map extract_text ps = map Return texts
        \<and> t = concat (map (\<lambda>x. x @ [0x0A]) texts))) \<and>
   returns_one (extract_text_from_txt lib f) \<and>
   (extract_text_from_txt lib f = Return (Some t, None) \<longleftrightarrow>
     (\<exists>b. read f = Return b \<and> str_utf8 lib b = Return t)) \<and>
   returns_one (extract_text_from_csv lib f) \<and>
   (extract_text_from_csv lib f = Return (Some t, None) \<longleftrightarrow>
     (\<exists>df. read_csv lib f = Return df \<and> to_string df = Return t)) \<and>
   returns_one (extract_text_from_excel lib f) \<and>
   (extract_text_from_excel lib f = Return (Some t, None) \<longleftrightarrow>
     (\<exists>df. read_excel lib f = Return df \<and> to_string df = Return t)) \<and>
   (if runs_extractor w then returns_one (snd (handle_input lib w))
    else snd (handle_input lib w) = Return (None, None))"
proof (intro conjI)
  show "if runs_extractor w then returns_one (snd (handle_input lib w))
    else snd (handle_input lib w) = Return (None, None)"
    using handle_input_runs [of w lib] handle_input_runs_not [of w lib] by simp
qed (rule returns_one_extractors fetch_webpage_content_text_iff extract_text_from_pdf_text_iff
      extract_text_from_txt_text_iff extract_text_from_csv_text_iff
      extract_text_from_excel_text_iff)+

theorem extraction_exactly_one_witness:
  "runs_extractor (upload_run (text_file [104, 105]) [] False)
   \<and> snd (handle_input ascii_library (upload_run (text_file [104, 105]) [] False))
     = Return (Some [104, 105], None)
   \<and> returns_one (snd (handle_input ascii_library (upload_run (text_file [104, 105]) [] False)))
   \<and> extract_text_from_txt ascii_library (text_file [104, 105]) = Return (Some [104, 105], None)"
proof -
  have 1: "lit ''Upload File'' \<noteq> lit ''Website URL''" "lit ''text/plain'' \<noteq> lit ''application/pdf''"
    by (simp_all add: lit_def)
  have r: "runs_extractor (upload_run (text_file [104, 105]) [] False)"
    using 1 by (simp add: runs_extractor_def upload_run_def text_file_def)
  have h: "snd (handle_input ascii_library (upload_run (text_file [104, 105]) [] False))
     = Return (Some [104, 105], None)"
    using 1 by (simp add: handle_input_def upload_run_def text_file_def ascii_library_def
        no_library_def extract_text_from_txt_def try_except_def bind_def)
  have d: "\<exists>b. read (text_file [104, 105]) = Return b \<and> str_utf8 ascii_library b = Return [104, 105]"
    by (simp add: text_file_def ascii_library_def no_library_def)
  show ?thesis
    using r h d extraction_exactly_one [of ascii_library "[]" "[104, 105]" "text_file [104, 105]"
        "upload_run (text_file [104, 105]) [] False"]
    by simp
qed

section \<open>The prompt\<close>

text \<open>
  C4. For a content longer than 8000 characters the prompt is a fixed text before and a
  fixed text after the first 8000 characters of the content, both independent of the
  content; the embedded slice has exactly 8000 characters, and whatever follows them in
  the content changes nothing in the prompt. The cut is at the character count alone.
\<close>

theorem prompt_embeds_first_8000:
  assumes "8000 < length c"
  shows "\<exists>pre post. (\<forall>d. analysis_prompt q d = pre @ take 8000 d @ post)
    \<and> length (take 8000 c) = 8000
    \<and> (\<forall>rest. analysis_prompt q (take 8000 c @ rest) = analysis_prompt q c)"
proof -
  let ?pre = "[0x0A] @ indent
     @ lit ''Analyze the following content and answer the user's question:''
     @ [0x0A] @ indent
     @ [0x0A] @ indent @ lit ''User Query: '' @ q
     @ [0x0A] @ indent
     @ [0x0A] @ indent @ lit ''Content:''
     @ [0x0A] @ indent"
  let ?post = "[0x0A] @ indent
     @ [0x0A] @ indent @ lit ''Provide a structured and detailed response.''
     @ [0x0A] @ indent"
  have 1: "\<forall>d. analysis_prompt q d = ?pre @ take 8000 d @ ?post"
    by (simp add: analysis_prompt_def)
  have 2: "length (take 8000 c) = 8000"
    using assms by simp
  have 3: "take 8000 (take 8000 c @ rest) = take 8000 c" for rest
    using 2 by simp
  have "\<forall>rest. analysis_prompt q (take 8000 c @ rest) = analysis_prompt q c"
    unfolding analysis_prompt_def 3 by simp
  with 1 2 show ?thesis by blast
qed

theorem prompt_embeds_first_8000_witness:
  "8000 < length (replicate 8001 (120::nat)) \<and>
   (\<exists>pre post. (\<forall>d. analysis_prompt (lit ''why'') d = pre @ take 8000 d @ post)
    \<and> length (take 8000 (replicate 8001 (120::nat))) = 8000
    \<and> (\<forall>rest. analysis_prompt (lit ''why'') (take 8000 (replicate 8001 120) @ rest)
          = analysis_prompt (lit ''why'') (replicate 8001 120)))"
proof -
  have h: "8000 < length (replicate 8001 (120::nat))" by simp
  show ?thesis
    using h prompt_embeds_first_8000 [OF h, of "lit ''why''"] by blast
qed

section \<open>The analyze action\<close>

text \<open>
  C5. With an empty query no run calls the agent; the handler of the button returns
  with the warning alone; and a run in which the button is rendered and pressed
  renders the warning.
\<close>

theorem empty_query_warns:
  assumes "user_query w = []"
  shows "(\<forall>p. Run_agent p \<notin> set (fst (render lib w)))
    \<and> analyze lib w c = ([Warning], Return ())
    \<and> (Button \<in> set (fst (render lib w)) \<and> button w \<longrightarrow> Warning \<in> set (fst (render lib w)))"
proof (intro conjI allI impI)
  show a: "analyze lib w c = ([Warning], Return ())" for c
    using assms by (simp add: analyze_def)
  have q: "fst (query_and_analysis lib w d) =
      (case d of None \<Rightarrow> [] | Some c \<Rightarrow> if c = [] then []
        else if button w then [Success_message, Text_area, Button, Warning]
        else [Success_message, Text_area, Button])" for d
    by (simp add: query_and_analysis_def a split: option.split)
  obtain evs r where h: "handle_input lib w = (evs, r)" by (cases "handle_input lib w")
  have e: "fst (render lib w) = evs \<or>
     (\<exists>d e. fst (render lib w) = evs @ display_error e @ fst (query_and_analysis lib w d))"
  proof (cases r)
    case (Raise x)
    with h show ?thesis by (simp add: render_def)
  next
    case (Return x)
    obtain d e where "x = (d, e)" by (cases x)
    with h Return show ?thesis using render_Return [of lib w evs d e] by auto
  qed
  have n: "Run_agent p \<notin> set evs" "Button \<notin> set evs" for p
    using handle_input_no_display(3) [of p lib w] handle_input_no_display(5) [of lib w] h
    by auto
  have d: "Run_agent p \<notin> set (display_error e)" "Button \<notin> set (display_error e)" for p e
    using display_error_events [of e] by auto
  show "Run_agent p \<notin> set (fst (render lib w))" for p
    using e n(1) d(1) by (auto simp: q split: option.splits if_splits)
  show "Warning \<in> set (fst (render lib w))"
    if "Button \<in> set (fst (render lib w)) \<and> button w"
    using that e n(2) d(2) by (auto simp: q split: option.splits if_splits)
qed

theorem empty_query_warns_witness:
  "user_query (upload_run (text_file [104, 101, 108, 108, 111]) [] True) = []
   \<and> render ascii_library (upload_run (text_file [104, 101, 108, 108, 111]) [] True)
       = ([File_uploader, Spinner, Success_message, Text_area, Button, Warning], Return ())
   \<and> (\<forall>p. Run_agent p \<notin> set (fst (render ascii_library
          (upload_run (text_file [104, 101, 108, 108, 111]) [] True))))"
proof -
  have 1: "lit ''Upload File'' \<noteq> lit ''Website URL''" "lit ''text/plain'' \<noteq> lit ''application/pdf''"
    by (simp_all add: lit_def)
  have q: "user_query (upload_run (text_file [104, 101, 108, 108, 111]) [] True) = []"
    by (simp add: upload_run_def)
  have h: "handle_input ascii_library (upload_run (text_file [104, 101, 108, 108, 111]) [] True)
     = ([File_uploader, Spinner], Return (Some [104, 101, 108, 108, 111], None))"
    using 1 by (simp add: handle_input_def upload_run_def text_file_def ascii_library_def
        no_library_def extract_text_from_txt_def try_except_def bind_def)
  have r: "render ascii_library (upload_run (text_file [104, 101, 108, 108, 111]) [] True)
       = ([File_uploader, Spinner, Success_message, Text_area, Button, Warning], Return ())"
    unfolding render_def h
    by (simp add: query_and_analysis_def analyze_def upload_run_def)
  show ?thesis
    using q r empty_query_warns [OF q, of ascii_library] by blast
qed

section \<open>PDF text\<close>

text \<open>
  The claim C6 as it is written, with a newline between consecutive pages only, fails
  on a document of one page: the extractor returns the page's text and a newline.
\<close>

theorem pdf_one_page_counterexample:
  "extract_text_from_pdf one_page_library pdf_file = Return (Some [65, 0x0A], None)
   \<and> extract_text_from_pdf one_page_library pdf_file \<noteq> Return (Some (join [0x0A] [[65]]), None)"
  by (simp add: extract_text_from_pdf_def one_page_library_def no_library_def
      try_except_def bind_def)

text \<open>
  C6, amended. For a document that the reader parses and whose pages all yield their
  text, the extractor returns, with no error, the texts in page order, each followed by
  a newline: the join of the texts with newlines and one more newline after the last.
\<close>

theorem pdf_text_each_page_newline:
  assumes "PdfReader lib f = Return reader"
    and "pages reader = Return ps"
    and "map extract_text ps = map Return texts"
  shows "extract_text_from_pdf lib f = Return (Some (concat (map (\<lambda>t. t @ [0x0A]) texts)), None)
    \<and> (texts \<noteq> [] \<longrightarrow> extract_text_from_pdf lib f = Return (Some (join [0x0A] texts @ [0x0A]), None))"
  using assms pdf_pages_loop_texts [OF assms(3), of "[]"] concat_newlines_join [of texts "0x0A"]
  by (simp add: extract_text_from_pdf_def try_except_def bind_def)

theorem pdf_text_each_page_newline_witness:
  "extract_text_from_pdf one_page_library pdf_file = Return (Some (join [0x0A] [[65]] @ [0x0A]), None)"
proof -
  have 1: "PdfReader one_page_library pdf_file = Return \<lparr> pages = Return [\<lparr> extract_text = Return [65] \<rparr>] \<rparr>"
    by (simp add: one_page_library_def)
  have 2: "pages \<lparr> pages = Return [\<lparr> extract_text = Return [65] \<rparr>] \<rparr> = Return [\<lparr> extract_text = Return [65] \<rparr>]"
    by simp
  have 3: "map extract_text [\<lparr> extract_text = Return [65::nat] \<rparr>] = map Return [[65]]"
    by simp
  show ?thesis
    using pdf_text_each_page_newline [OF 1 2 3] by simp
qed

section \<open>Web page text\<close>




text \<open>
  C8. For a page fetched with status 200 and parsed, the returned text does not depend on
  what the script and style tags contain: a page that differs from it only inside those
  tags gives the same text, and the extraction succeeds.
\<close>

theorem script_style_contents_excluded:
  assumes "requests_get lib u = Return resp"
    and "raise_for_status resp = Return ()"
    and "BeautifulSoup lib (response_text resp) = Return soup"
    and "same_outside [lit ''script'', lit ''style''] soup soup'"
  shows "fetch_webpage_content (lib \<lparr> BeautifulSoup := (\<lambda>t. Return soup') \<rparr>) u
      = fetch_webpage_content lib u
    \<and> (\<exists>t. fetch_webpage_content lib u = Return (Some t, None))"
proof -
  have "fetch_webpage_content (lib \<lparr> BeautifulSoup := (\<lambda>t. Return soup') \<rparr>) u
      = Return (Some (join (lit '' '')
      [strip chunk. line \<leftarrow> splitlines (get_text (decompose_all [lit ''script'', lit ''style''] soup')),
         chunk \<leftarrow> split (lit ''  '') line, chunk \<noteq> []]), None)"
    using assms(1,2) by (intro fetch_webpage_content_ok [where resp = resp]) simp_all
  with fetch_webpage_content_ok [OF assms(1-3)] same_outside_decompose_all [OF assms(4)]
  show ?thesis by simp
qed

theorem script_style_contents_excluded_witness:
  "fetch_webpage_content
     (page_library [Tag (lit ''script'') [NavigableString [120]], NavigableString [99]]
        \<lparr> BeautifulSoup := (\<lambda>t. Return
             [Tag (lit ''script'') [NavigableString [121, 121]], NavigableString [99]]) \<rparr>)
     (lit ''http://a'')
   = fetch_webpage_content
       (page_library [Tag (lit ''script'') [NavigableString [120]], NavigableString [99]])
       (lit ''http://a'')"
proof -
  let ?soup = "[Tag (lit ''script'') [NavigableString [120]], NavigableString [99]]"
  let ?resp = "\<lparr> raise_for_status = Return (), response_text = lit ''<html>'' \<rparr>"
  have 1: "requests_get (page_library ?soup) (lit ''http://a'') = Return ?resp"
    by (simp add: page_library_def)
  have 2: "raise_for_status ?resp = Return ()"
    by simp
  have 3: "BeautifulSoup (page_library ?soup) (response_text ?resp) = Return ?soup"
    by (simp add: page_library_def)
  have 4: "same_outside [lit ''script'', lit ''style''] ?soup
      [Tag (lit ''script'') [NavigableString [121, 121]], NavigableString [99]]"
    by simp
  show ?thesis
    using script_style_contents_excluded [OF 1 2 3 4] by simp
qed

section \<open>Unlocking the query\<close>

text \<open>
  The claim C9 as it is written fails on an empty text file: the extraction succeeds
  with the empty string, which the gate \<^verbatim>\<open>if data_content:\<close> takes for false.
\<close>

theorem empty_text_stays_locked:
  "snd (handle_input ascii_library (upload_run (text_file []) (lit ''why'') True))
     = Return (Some [], None)
   \<and> Success_message \<notin> set (fst (render ascii_library (upload_run (text_file []) (lit ''why'') True)))
   \<and> Text_area \<notin> set (fst (render ascii_library (upload_run (text_file []) (lit ''why'') True)))
   \<and> Button \<notin> set (fst (render ascii_library (upload_run (text_file []) (lit ''why'') True)))"
proof -
  have 1: "lit ''Upload File'' \<noteq> lit ''Website URL''" "lit ''text/plain'' \<noteq> lit ''application/pdf''"
    by (simp_all add: lit_def)
  have h: "handle_input ascii_library (upload_run (text_file []) (lit ''why'') True)
     = ([File_uploader, Spinner], Return (Some [], None))"
    using 1 by (simp add: handle_input_def upload_run_def text_file_def ascii_library_def
        no_library_def extract_text_from_txt_def try_except_def bind_def)
  show ?thesis
    by (simp add: render_def h)
qed

text \<open>
  C9, amended. After an extraction that succeeds with a non-empty text, the run renders
  the success message, the query input and the button. After one that succeeds with the
  empty string the run renders nothing beyond the input widgets.
\<close>

theorem nonempty_text_unlocks:
  assumes "snd (handle_input lib w) = Return (Some t, None)"
  shows "(t \<noteq> [] \<longrightarrow> Success_message \<in> set (fst (render lib w))
            \<and> Text_area \<in> set (fst (render lib w)) \<and> Button \<in> set (fst (render lib w)))
    \<and> (t = [] \<longrightarrow> fst (render lib w) = fst (handle_input lib w))"
proof -
  obtain evs where h: "handle_input lib w = (evs, Return (Some t, None))"
    using assms by (cases "handle_input lib w") simp
  have r: "fst (render lib w) = evs @ fst (query_and_analysis lib w (Some t))"
    using render_Return [OF h] by simp
  show ?thesis
    by (simp add: r h query_and_analysis_def case_prod_beta)
qed

theorem nonempty_text_unlocks_witness:
  "snd (handle_input ascii_library (upload_run (text_file [104, 105]) [] False))
     = Return (Some [104, 105], None)
   \<and> Success_message \<in> set (fst (render ascii_library (upload_run (text_file [104, 105]) [] False)))
   \<and> Text_area \<in> set (fst (render ascii_library (upload_run (text_file [104, 105]) [] False)))
   \<and> Button \<in> set (fst (render ascii_library (upload_run (text_file [104, 105]) [] False)))"
proof -
  have 1: "lit ''Upload File'' \<noteq> lit ''Website URL''" "lit ''text/plain'' \<noteq> lit ''application/pdf''"
    by (simp_all add: lit_def)
  have h: "snd (handle_input ascii_library (upload_run (text_file [104, 105]) [] False))
     = Return (Some [104, 105], None)"
    using 1 by (simp add: handle_input_def upload_run_def text_file_def ascii_library_def
        no_library_def extract_text_from_txt_def try_except_def bind_def)
  show ?thesis
    using h nonempty_text_unlocks [OF h] by simp
qed

text \<open>
  C10. For an uploaded file whose declared type is none of the handled ones, the
  dispatch leaves both variables at \<^verbatim>\<open>None\<close> whatever the library does, and the run
  renders the uploader and its spinner only: no error message, no success message, no
  query input and no button.
\<close>

theorem unhandled_type_loads_nothing:
  assumes "input_type w \<noteq> lit ''Website URL''"
    and "uploaded_file w = Some f"
    and "type f \<notin> set [lit ''application/pdf'', lit ''text/plain'', lit ''text/csv'',
        lit ''application/vnd.ms-excel'',
        lit ''application/vnd.openxmlformats-officedocument.spreadsheetml.sheet'']"
  shows "handle_input lib w = ([File_uploader, Spinner], Return (None, None))
    \<and> render lib w = ([File_uploader, Spinner], Return ())"
proof -
  from assms have h: "handle_input lib w = ([File_uploader, Spinner], Return (None, None))"
    by (simp add: handle_input_def)
  then show ?thesis by (simp add: render_def)
qed

theorem unhandled_type_loads_nothing_witness:
  "handle_input no_library (upload_run octet_file [] False) = ([File_uploader, Spinner], Return (None, None))
   \<and> render no_library (upload_run octet_file [] False) = ([File_uploader, Spinner], Return ())"
  using unhandled_type_loads_nothing [of "upload_run octet_file [] False" octet_file no_library]
  by (simp add: upload_run_def octet_file_def lit_def)

end
